theory Spec2Isabelle
  imports Main "HOL-Library.Sublist"
begin

section \<open>Python values used by \<^verbatim>\<open>zoom-alfred.py\<close>\<close>

text \<open>
  The exceptions the modelled functions can raise. A function that may raise returns
  \<open>error + 'a\<close>, with \<open>Inl\<close> for the exception.
\<close>

datatype error = KeyError | TypeError | StopIteration

text \<open>
  A \<^verbatim>\<open>datetime\<close> is either naive (no \<^verbatim>\<open>tzinfo\<close>) or aware. The integer is the number of
  microseconds since 1970-01-01T00:00:00: read off the local fields for a naive value, the
  UTC instant for an aware one. Python orders and subtracts two naive values by their
  fields and two aware ones by their UTC instants, and raises \<^verbatim>\<open>TypeError\<close> when one is naive
  and the other aware, or when one operand is \<^verbatim>\<open>None\<close>. A \<^verbatim>\<open>timedelta\<close> is a number of
  microseconds.
\<close>

datatype datetime = Naive int | Aware int

type_synonym timedelta = int

definition timedelta_minutes :: "int \<Rightarrow> timedelta" where
  "timedelta_minutes m = m * 60 * 1000000"

fun dt_le :: "datetime option \<Rightarrow> datetime \<Rightarrow> error + bool" where
  "dt_le (Some (Naive a)) (Naive b) = Inr (a \<le> b)"
| "dt_le (Some (Aware a)) (Aware b) = Inr (a \<le> b)"
| "dt_le _ _ = Inl TypeError"

fun dt_ge :: "datetime option \<Rightarrow> datetime \<Rightarrow> error + bool" where
  "dt_ge (Some (Naive a)) (Naive b) = Inr (a \<ge> b)"
| "dt_ge (Some (Aware a)) (Aware b) = Inr (a \<ge> b)"
| "dt_ge _ _ = Inl TypeError"

fun dt_gt :: "datetime option \<Rightarrow> datetime \<Rightarrow> error + bool" where
  "dt_gt (Some (Naive a)) (Naive b) = Inr (a > b)"
| "dt_gt (Some (Aware a)) (Aware b) = Inr (a > b)"
| "dt_gt _ _ = Inl TypeError"

fun dt_sub :: "datetime option \<Rightarrow> datetime \<Rightarrow> error + timedelta" where
  "dt_sub (Some (Naive a)) (Naive b) = Inr (a - b)"
| "dt_sub (Some (Aware a)) (Aware b) = Inr (a - b)"
| "dt_sub _ _ = Inl TypeError"

text \<open>
  Strings are lists of bytes. The two string operations of the source are the substring
  test \<^verbatim>\<open>sub in s\<close> and \<^verbatim>\<open>s.split(",")\<close>; on UTF-8 text both agree with Python's
  code-point versions for an ASCII needle and separator.
\<close>

fun str_in :: "string \<Rightarrow> string \<Rightarrow> bool" where
  "str_in sub [] = (sub = [])"
| "str_in sub (c # s) = (prefix sub (c # s) \<or> str_in sub s)"

text \<open>
  \<^verbatim>\<open>s.split(sep)\<close> for a one-character separator: every occurrence of the separator ends
  a segment, empty segments are kept, and the result is never empty. \<open>acc\<close> is the segment
  being read.
\<close>

fun split_acc :: "char \<Rightarrow> string \<Rightarrow> string \<Rightarrow> string list" where
  "split_acc sep acc [] = [acc]"
| "split_acc sep acc (c # s) =
     (if c = sep then acc # split_acc sep [] s else split_acc sep (acc @ [c]) s)"

definition split :: "char \<Rightarrow> string \<Rightarrow> string list" where
  "split sep s = split_acc sep [] s"

text \<open>
  \<^verbatim>\<open>next(x for x in xs if p(x))\<close> with no default: the first element that satisfies \<open>p\<close>,
  or \<^verbatim>\<open>StopIteration\<close>.
\<close>

definition next_where :: "('a \<Rightarrow> bool) \<Rightarrow> 'a list \<Rightarrow> error + 'a" where
  "next_where p xs = (case find p xs of None \<Rightarrow> Inl StopIteration | Some x \<Rightarrow> Inr x)"

text \<open>A \<^verbatim>\<open>Dict[str, str]\<close>, with \<^verbatim>\<open>d.get(k)\<close> as \<open>map_of d k\<close>.\<close>

type_synonym pydict = "(string \<times> string) list"

definition dict_get :: "pydict \<Rightarrow> string \<Rightarrow> string \<Rightarrow> string" where
  "dict_get d k dflt = (case map_of d k of None \<Rightarrow> dflt | Some v \<Rightarrow> v)"

section \<open>Data model\<close>

datatype Command = Command_list | Command_join

datatype OutputFormat = stdout | alfred

datatype NextMeetingOptions = FoundNextMeeting | MultipleOptions | NoOptions

record Args =
  command :: Command
  format :: OutputFormat
  now :: datetime

text \<open>
  A calendar event as the Google Calendar API returns it: a dictionary in which every key
  may be missing. The fields the program reads are \<^verbatim>\<open>id\<close>, \<^verbatim>\<open>summary\<close>, \<^verbatim>\<open>start\<close>, \<^verbatim>\<open>end\<close>,
  \<^verbatim>\<open>location\<close> and \<^verbatim>\<open>conferenceData.entryPoints\<close>; \<open>None\<close> is a missing key.
\<close>

record conferenceData =
  entryPoints :: "pydict list option"

record event =
  e_id :: "string option"
  e_summary :: "string option"
  e_start :: "pydict option"
  e_end :: "pydict option"
  e_location :: "string option"
  e_conferenceData :: "conferenceData option"

record MyEvent =
  id' :: string
  start :: "datetime option"
  summary :: string
  is_not_day_event :: bool
  in_progress :: bool
  is_next_joinable :: bool
  zoom_link :: "string option"
  icon :: "string option"

text \<open>
  What the program calls outside \<^verbatim>\<open>src/\<close>: \<^verbatim>\<open>datetime.fromisoformat\<close> of the standard
  library (\<open>None\<close> when it raises \<^verbatim>\<open>ValueError\<close>), and \<^verbatim>\<open>is_not_day_only\<close> and
  \<^verbatim>\<open>convert_to_zoom_protocol\<close> of the module \<^verbatim>\<open>zoom\<close>. They are parameters of the model.
\<close>

record env =
  fromisoformat :: "string \<Rightarrow> datetime option"
  is_not_day_only :: "event \<Rightarrow> bool"
  convert_to_zoom_protocol :: "string \<Rightarrow> string"

section \<open>Constants (\<^verbatim>\<open>constants.py\<close>)\<close>

definition HOURS_AHEAD :: int where "HOURS_AHEAD = 9"

definition NUM_NEXT :: int where "NUM_NEXT = 5"

definition JOINABLE_IF_NEXT_STARTS_WITHIN :: int where "JOINABLE_IF_NEXT_STARTS_WITHIN = 3"

section \<open>Link extraction\<close>

text \<open>
  \<^verbatim>\<open>_debug\<close> only prints its message and is left out; the evaluation of its argument
  \<^verbatim>\<open>event["summary"]\<close>, which raises \<^verbatim>\<open>KeyError\<close> on a missing key, is kept
  (\<open>debug_summary\<close>).
\<close>

definition debug_summary :: "event \<Rightarrow> error + string option" where
  "debug_summary event = (case e_summary event of None \<Rightarrow> Inl KeyError | Some _ \<Rightarrow> Inr None)"

definition get_zoom_link :: "event \<Rightarrow> Args \<Rightarrow> error + string option" where
  "get_zoom_link event args =
     (let loc = (case e_location event of None \<Rightarrow> [] | Some l \<Rightarrow> l) in
      if str_in ''zoom.us'' loc then
        (if str_in '','' loc then
           (case next_where (str_in ''zoom.us'') (split CHR '','' loc) of
              Inl e \<Rightarrow> Inl e
            | Inr l \<Rightarrow> Inr (Some l))
         else Inr (Some loc))
      else
        (let eps = (case e_conferenceData event of
                      None \<Rightarrow> []
                    | Some cd \<Rightarrow> (case entryPoints cd of None \<Rightarrow> [] | Some l \<Rightarrow> l)) in
         if eps \<noteq> [] then
           (case next_where (\<lambda>ep. str_in ''zoom.us'' (dict_get ep ''uri'' [])) eps of
              Inl e \<Rightarrow> Inl e
            | Inr found \<Rightarrow>
                if found \<noteq> [] then
                  (case map_of found ''uri'' of None \<Rightarrow> Inl KeyError | Some u \<Rightarrow> Inr (Some u))
                else debug_summary event)
         else debug_summary event))"

definition has_zoom_link :: "event \<Rightarrow> Args \<Rightarrow> error + bool" where
  "has_zoom_link event args =
     (case get_zoom_link event args of Inl e \<Rightarrow> Inl e | Inr l \<Rightarrow> Inr (l \<noteq> None))"

section \<open>Event normalization\<close>

text \<open>
  \<^verbatim>\<open>d.get("dateTime", d.get("date"))\<close> is \<^verbatim>\<open>None\<close> when both keys are missing;
  \<^verbatim>\<open>fromisoformat(None)\<close> raises \<^verbatim>\<open>TypeError\<close>, and the bare \<^verbatim>\<open>except\<close> turns every
  exception into \<^verbatim>\<open>None\<close>.
\<close>

definition parse_event_datetime :: "env \<Rightarrow> pydict \<Rightarrow> datetime option" where
  "parse_event_datetime lib d =
     (let datetime_or_date = (case map_of d ''dateTime'' of None \<Rightarrow> map_of d ''date'' | Some v \<Rightarrow> Some v) in
      case datetime_or_date of None \<Rightarrow> None | Some s \<Rightarrow> fromisoformat lib s)"

text \<open>
  \<^verbatim>\<open>is_not_day and start <= args.now and end >= args.now\<close>, evaluated left to right with
  Python's short-circuit \<^verbatim>\<open>and\<close>.
\<close>

definition eval_in_progress ::
  "bool \<Rightarrow> datetime option \<Rightarrow> datetime option \<Rightarrow> datetime \<Rightarrow> error + bool" where
  "eval_in_progress is_not_day start' end' now' =
     (if \<not> is_not_day then Inr False
      else case dt_le start' now' of
             Inl e \<Rightarrow> Inl e
           | Inr b \<Rightarrow> if \<not> b then Inr False else dt_ge end' now')"

text \<open>
  The block that sets \<^verbatim>\<open>is_next_joinable\<close>: \<^verbatim>\<open>False\<close> unless the guard
  \<^verbatim>\<open>is_not_day and not in_progress and start > args.now\<close> holds, and then
  \<^verbatim>\<open>start - args.now < timedelta(minutes=c.JOINABLE_IF_NEXT_STARTS_WITHIN)\<close>.
\<close>

definition eval_is_next_joinable ::
  "bool \<Rightarrow> bool \<Rightarrow> datetime option \<Rightarrow> datetime \<Rightarrow> error + bool" where
  "eval_is_next_joinable is_not_day in_progress' start' now' =
     (if is_not_day \<and> \<not> in_progress' then
        (case dt_gt start' now' of
           Inl e \<Rightarrow> Inl e
         | Inr b \<Rightarrow>
             if b then
               (case dt_sub start' now' of
                  Inl e \<Rightarrow> Inl e
                | Inr delta \<Rightarrow> Inr (delta < timedelta_minutes JOINABLE_IF_NEXT_STARTS_WITHIN))
             else Inr False)
      else Inr False)"

definition pick_icon :: "string \<Rightarrow> string" where
  "pick_icon summary' =
     (if str_in ''1:1'' summary' then ''one.png''
      else if str_in ''Standup'' summary' then ''standup.png''
      else ''icon.png'')"

definition augment :: "env \<Rightarrow> Args \<Rightarrow> event \<Rightarrow> error + MyEvent" where
  "augment lib args event =
     (case e_id event of None \<Rightarrow> Inl KeyError | Some i \<Rightarrow>
     (case e_start event of None \<Rightarrow> Inl KeyError | Some sd \<Rightarrow>
     (let start' = parse_event_datetime lib sd in
     (case e_end event of None \<Rightarrow> Inl KeyError | Some ed \<Rightarrow>
     (let end' = parse_event_datetime lib ed;
          is_not_day = is_not_day_only lib event in
     (case eval_in_progress is_not_day start' end' (now args) of Inl e \<Rightarrow> Inl e | Inr in_progress' \<Rightarrow>
     (case eval_is_next_joinable is_not_day in_progress' start' (now args) of Inl e \<Rightarrow> Inl e | Inr is_next_joinable' \<Rightarrow>
     (case e_summary event of None \<Rightarrow> Inl KeyError | Some summary' \<Rightarrow>
     (case get_zoom_link event args of Inl e \<Rightarrow> Inl e | Inr link \<Rightarrow>
     (let zoom_link' = (case link of
                          None \<Rightarrow> None
                        | Some l \<Rightarrow> if l \<noteq> [] then Some (convert_to_zoom_protocol lib l) else None) in
      Inr \<lparr> id' = i, start = start', summary = summary',
            is_not_day_event = is_not_day, in_progress = in_progress',
            is_next_joinable = is_next_joinable', zoom_link = zoom_link',
            icon = Some (pick_icon summary') \<rparr>))))))))))"

text \<open>
  \<^verbatim>\<open>list(map(f, xs))\<close>: an exception raised by \<open>f\<close> leaves \<^verbatim>\<open>map\<close>'s iterator. \<^verbatim>\<open>list\<close>
  reads \<^verbatim>\<open>StopIteration\<close> as the end of the iteration and returns what it has collected;
  any other exception propagates.
\<close>

fun list_map :: "('a \<Rightarrow> error + 'b) \<Rightarrow> 'a list \<Rightarrow> error + 'b list" where
  "list_map f [] = Inr []"
| "list_map f (x # xs) =
     (case f x of
        Inl e \<Rightarrow> if e = StopIteration then Inr [] else Inl e
      | Inr y \<Rightarrow> (case list_map f xs of Inl e \<Rightarrow> Inl e | Inr ys \<Rightarrow> Inr (y # ys)))"

definition parse_events :: "env \<Rightarrow> event list \<Rightarrow> Args \<Rightarrow> error + MyEvent list" where
  "parse_events lib events args = list_map (augment lib args) events"

section \<open>Meeting resolution\<close>

definition find_meeting_to_join ::
  "MyEvent list \<Rightarrow> Args \<Rightarrow> NextMeetingOptions \<times> MyEvent option" where
  "find_meeting_to_join events args =
     (if events \<noteq> [] then
        (let in_progress' = filter in_progress events;
             next' = filter is_next_joinable events in
         if length next' = 1 then (FoundNextMeeting, Some (next' ! 0))
         else if length in_progress' = 1 then (FoundNextMeeting, Some (in_progress' ! 0))
         else (MultipleOptions, None))
      else (NoOptions, None))"

section \<open>Example inputs\<close>

text \<open>
  Modelled from the spec: \<^verbatim>\<open>is_not_day_only\<close> lives in the module \<^verbatim>\<open>zoom\<close>, which is not
  among the sources. The spec says: "\<^verbatim>\<open>is_timed\<close> = true iff the raw start marker is a precise
  instant (not a whole-day date)". The API marks a precise instant with the key
  \<^verbatim>\<open>dateTime\<close> and a whole day with the key \<^verbatim>\<open>date\<close>.
\<close>

definition is_not_day_only_spec :: "event \<Rightarrow> bool" where
  "is_not_day_only_spec event =
     (case e_start event of None \<Rightarrow> False | Some d \<Rightarrow> map_of d ''dateTime'' \<noteq> None)"

text \<open>
  The values of \<^verbatim>\<open>datetime.fromisoformat\<close> at the strings the examples use; it rejects
  \<^verbatim>\<open>not-a-date\<close>, like every string that is not in the table.
\<close>

definition fromisoformat_tbl :: "string \<Rightarrow> datetime option" where
  "fromisoformat_tbl s =
     (if s = ''1970-01-01T00:00:00+00:00'' then Some (Aware 0)
      else if s = ''1970-01-01T00:10:00+00:00'' then Some (Aware 600000000)
      else if s = ''1970-01-01T01:00:00+00:00'' then Some (Aware 3600000000)
      else if s = ''1970-01-02'' then Some (Naive 86400000000)
      else if s = ''1970-01-03'' then Some (Naive 172800000000)
      else None)"

text \<open>
  The examples do not depend on the form of the converted link: the identity stands for
  \<^verbatim>\<open>convert_to_zoom_protocol\<close> in them.
\<close>

definition lib0 :: env where
  "lib0 = \<lparr> fromisoformat = fromisoformat_tbl,
            is_not_day_only = is_not_day_only_spec,
            convert_to_zoom_protocol = (\<lambda>link. link) \<rparr>"

text \<open>\<^verbatim>\<open>now\<close> is 1970-01-01T00:08:00+00:00.\<close>

definition args0 :: Args where
  "args0 = \<lparr> command = Command_list, format = alfred, now = Aware 480000000 \<rparr>"

definition t0000 :: pydict where "t0000 = [(''dateTime'', ''1970-01-01T00:00:00+00:00'')]"

definition t0010 :: pydict where "t0010 = [(''dateTime'', ''1970-01-01T00:10:00+00:00'')]"

definition t0100 :: pydict where "t0100 = [(''dateTime'', ''1970-01-01T01:00:00+00:00'')]"

text \<open>A meeting from 00:00 to 01:00 whose location is a link.\<close>

definition ev_standup :: event where
  "ev_standup = \<lparr> e_id = Some ''a'', e_summary = Some ''Standup'',
                  e_start = Some t0000, e_end = Some t0100,
                  e_location = Some ''https://zoom.us/j/100'', e_conferenceData = None \<rparr>"

text \<open>A meeting from 00:10 to 01:00 whose location is an address and a link.\<close>

definition ev_review :: event where
  "ev_review = \<lparr> e_id = Some ''b'', e_summary = Some ''Review'',
                 e_start = Some t0010, e_end = Some t0100,
                 e_location = Some ''123 Main St, https://zoom.us/j/111'',
                 e_conferenceData = None \<rparr>"

text \<open>A meeting from 00:10 to 01:00 with no location and a link among its entry points.\<close>

definition ev_sync :: event where
  "ev_sync = \<lparr> e_id = Some ''c'', e_summary = Some ''1:1 sync'',
               e_start = Some t0010, e_end = Some t0100,
               e_location = None,
               e_conferenceData = Some \<lparr> entryPoints = Some
                 [[(''entryPointType'', ''phone''), (''uri'', ''tel:+1-555-0100'')],
                  [(''entryPointType'', ''video''), (''uri'', ''https://zoom.us/j/222'')]] \<rparr> \<rparr>"

text \<open>A meeting with entry points of another provider only, and no location.\<close>

definition ev_meet :: event where
  "ev_meet = \<lparr> e_id = Some ''d'', e_summary = Some ''Lunch'',
               e_start = Some t0010, e_end = Some t0100,
               e_location = None,
               e_conferenceData = Some \<lparr> entryPoints = Some
                 [[(''entryPointType'', ''video''), (''uri'', ''https://meet.google.com/abc-defg-hij'')]] \<rparr> \<rparr>"

text \<open>A meeting that started at 00:00 and whose end cannot be parsed.\<close>

definition ev_bad_end :: event where
  "ev_bad_end = \<lparr> e_id = Some ''e'', e_summary = Some ''Planning'',
                  e_start = Some t0000, e_end = Some [(''dateTime'', ''not-a-date'')],
                  e_location = Some ''https://zoom.us/j/333'', e_conferenceData = None \<rparr>"

text \<open>
  A meeting whose location is a room and a link, with entry points of another provider.
\<close>

definition ev_both :: event where
  "ev_both = \<lparr> e_id = Some ''f'', e_summary = Some ''Demo'',
               e_start = Some t0010, e_end = Some t0100,
               e_location = Some ''Room 4, https://zoom.us/j/444'',
               e_conferenceData = Some \<lparr> entryPoints = Some
                 [[(''entryPointType'', ''video''), (''uri'', ''https://meet.google.com/abc-defg-hij'')]] \<rparr> \<rparr>"

text \<open>A whole-day event, with neither a location nor conference data.\<close>

definition ev_holiday :: event where
  "ev_holiday = \<lparr> e_id = Some ''g'', e_summary = Some ''Holiday'',
                  e_start = Some [(''date'', ''1970-01-02'')],
                  e_end = Some [(''date'', ''1970-01-03'')],
                  e_location = None, e_conferenceData = None \<rparr>"

text \<open>The records \<open>augment\<close> makes of the first three events at \<open>args0\<close>.\<close>

definition m_standup :: MyEvent where
  "m_standup = \<lparr> id' = ''a'', start = Some (Aware 0), summary = ''Standup'',
                 is_not_day_event = True, in_progress = True, is_next_joinable = False,
                 zoom_link = Some ''https://zoom.us/j/100'', icon = Some ''standup.png'' \<rparr>"

definition m_review :: MyEvent where
  "m_review = \<lparr> id' = ''b'', start = Some (Aware 600000000), summary = ''Review'',
                is_not_day_event = True, in_progress = False, is_next_joinable = True,
                zoom_link = Some '' https://zoom.us/j/111'', icon = Some ''icon.png'' \<rparr>"

definition m_holiday :: MyEvent where
  "m_holiday = \<lparr> id' = ''g'', start = Some (Naive 86400000000), summary = ''Holiday'',
                 is_not_day_event = False, in_progress = False, is_next_joinable = False,
                 zoom_link = None, icon = Some ''icon.png'' \<rparr>"

definition m_sync :: MyEvent where
  "m_sync = \<lparr> id' = ''c'', start = Some (Aware 600000000), summary = ''1:1 sync'',
              is_not_day_event = True, in_progress = False, is_next_joinable = True,
              zoom_link = Some ''https://zoom.us/j/222'', icon = Some ''one.png'' \<rparr>"

section \<open>Evaluating the examples\<close>

lemmas lib0_defs =
  lib0_def args0_def t0000_def t0010_def t0100_def is_not_day_only_spec_def
  fromisoformat_tbl_def

lemmas model_defs =
  augment_def parse_event_datetime_def eval_in_progress_def eval_is_next_joinable_def
  get_zoom_link_def pick_icon_def timedelta_minutes_def JOINABLE_IF_NEXT_STARTS_WITHIN_def
  next_where_def split_def dict_get_def debug_summary_def Let_def

lemma augment_ev_standup: "augment lib0 args0 ev_standup = Inr m_standup"
  by (simp add: ev_standup_def m_standup_def lib0_defs model_defs)

lemma augment_ev_review: "augment lib0 args0 ev_review = Inr m_review"
  by (simp add: ev_review_def m_review_def lib0_defs model_defs)

lemma augment_ev_sync: "augment lib0 args0 ev_sync = Inr m_sync"
  by (simp add: ev_sync_def m_sync_def lib0_defs model_defs)

lemma augment_ev_holiday: "augment lib0 args0 ev_holiday = Inr m_holiday"
  by (simp add: ev_holiday_def m_holiday_def lib0_defs model_defs)

lemma parse_events_examples:
  "parse_events lib0 [ev_standup, ev_review, ev_sync] args0 = Inr [m_standup, m_review, m_sync]"
  by (simp add: parse_events_def augment_ev_standup augment_ev_review augment_ev_sync)

lemma filter_next_examples:
  "filter is_next_joinable [m_standup, m_review, m_sync] = [m_review, m_sync]"
  "filter is_next_joinable [m_standup, m_review] = [m_review]"
  "filter is_next_joinable [m_standup] = []"
  "filter is_next_joinable [m_review, m_sync] = [m_review, m_sync]"
  by (simp_all add: m_standup_def m_review_def m_sync_def)

lemma filter_in_progress_examples:
  "filter in_progress [m_standup, m_review, m_sync] = [m_standup]"
  "filter in_progress [m_standup, m_review] = [m_standup]"
  "filter in_progress [m_standup] = [m_standup]"
  "filter in_progress [m_review, m_sync] = []"
  by (simp_all add: m_standup_def m_review_def m_sync_def)

section \<open>Properties of the meeting resolver\<close>

lemma filter_single_nth:
  assumes "length (filter P xs) = 1"
  shows "filter P xs ! 0 \<in> set xs \<and> P (filter P xs ! 0)"
proof -
  from assms have "filter P xs ! 0 \<in> set (filter P xs)"
    by (intro nth_mem) simp
  then show ?thesis
    by (simp only: set_filter mem_Collect_eq)
qed

text \<open>
  C4. If exactly one meeting of the list is next-joinable, that is, the next-joinable
  meetings of the list are the one-element list \<open>[m]\<close>, then \<open>find_meeting_to_join\<close>
  returns \<open>FoundNextMeeting\<close> with \<open>m\<close>. Nothing is assumed of the meetings in progress.
\<close>

theorem find_meeting_to_join_one_next:
  assumes "filter is_next_joinable events = [m]"
  shows "find_meeting_to_join events args = (FoundNextMeeting, Some m)"
proof -
  from assms have "events \<noteq> []" by auto
  with assms show ?thesis by (simp add: find_meeting_to_join_def)
qed

text \<open>At a list with one meeting in progress and one next-joinable meeting.\<close>

theorem find_meeting_to_join_one_next_witness:
  "filter is_next_joinable [m_standup, m_review] = [m_review]
   \<and> filter in_progress [m_standup, m_review] = [m_standup]
   \<and> find_meeting_to_join [m_standup, m_review] args0 = (FoundNextMeeting, Some m_review)"
proof -
  have h: "filter is_next_joinable [m_standup, m_review] = [m_review]"
    by (rule filter_next_examples)
  from find_meeting_to_join_one_next [OF h, of args0] h filter_in_progress_examples(2)
  show ?thesis by blast
qed

text \<open>
  C5. If no meeting of the list is next-joinable and exactly one is in progress (the
  meetings in progress are the one-element list \<open>[m]\<close>), then \<open>find_meeting_to_join\<close>
  returns \<open>FoundNextMeeting\<close> with \<open>m\<close>.
\<close>

theorem find_meeting_to_join_one_in_progress:
  assumes "filter is_next_joinable events = []"
    and "filter in_progress events = [m]"
  shows "find_meeting_to_join events args = (FoundNextMeeting, Some m)"
proof -
  from assms(2) have "events \<noteq> []" by auto
  with assms show ?thesis by (simp add: find_meeting_to_join_def)
qed

theorem find_meeting_to_join_one_in_progress_witness:
  "filter is_next_joinable [m_standup] = []
   \<and> filter in_progress [m_standup] = [m_standup]
   \<and> find_meeting_to_join [m_standup] args0 = (FoundNextMeeting, Some m_standup)"
proof -
  have h1: "filter is_next_joinable [m_standup] = []"
    by (rule filter_next_examples)
  have h2: "filter in_progress [m_standup] = [m_standup]"
    by (rule filter_in_progress_examples)
  from find_meeting_to_join_one_in_progress [OF h1 h2, of args0] h1 h2
  show ?thesis by blast
qed

text \<open>
  C6, as the code has it. For a non-empty list: if two or more meetings are next-joinable
  and the number of meetings in progress is not one, or no meeting is next-joinable and two
  or more are in progress, then \<open>find_meeting_to_join\<close> returns \<open>MultipleOptions\<close> and no
  meeting. With two or more next-joinable meetings and exactly one meeting in progress the
  second test of the function selects the meeting in progress.
\<close>

theorem find_meeting_to_join_ambiguous:
  assumes "events \<noteq> []"
    and "(2 \<le> length (filter is_next_joinable events) \<and> length (filter in_progress events) \<noteq> 1)
       \<or> (filter is_next_joinable events = [] \<and> 2 \<le> length (filter in_progress events))"
  shows "find_meeting_to_join events args = (MultipleOptions, None)"
  using assms by (auto simp add: find_meeting_to_join_def Let_def)

text \<open>Two next-joinable meetings, none in progress.\<close>

theorem find_meeting_to_join_ambiguous_witness:
  "[m_review, m_sync] \<noteq> []
   \<and> 2 \<le> length (filter is_next_joinable [m_review, m_sync])
   \<and> length (filter in_progress [m_review, m_sync]) \<noteq> 1
   \<and> find_meeting_to_join [m_review, m_sync] args0 = (MultipleOptions, None)"
proof -
  have h1: "[m_review, m_sync] \<noteq> []" by simp
  have h2: "2 \<le> length (filter is_next_joinable [m_review, m_sync])"
    unfolding filter_next_examples by simp
  have h3: "length (filter in_progress [m_review, m_sync]) \<noteq> 1"
    unfolding filter_in_progress_examples by simp
  from h2 h3 have h:
    "(2 \<le> length (filter is_next_joinable [m_review, m_sync])
        \<and> length (filter in_progress [m_review, m_sync]) \<noteq> 1)
     \<or> (filter is_next_joinable [m_review, m_sync] = []
        \<and> 2 \<le> length (filter in_progress [m_review, m_sync]))"
    by blast
  from find_meeting_to_join_ambiguous [OF h1 h, of args0] h1 h2 h3
  show ?thesis by blast
qed

text \<open>
  The three meetings that \<open>parse_events\<close> makes of \<open>ev_standup\<close>, \<open>ev_review\<close> and
  \<open>ev_sync\<close> at 00:08: two start at 00:10 and are next-joinable, one is in progress. The
  list is not empty and has two next-joinable meetings, and the result is not
  \<open>MultipleOptions\<close>: the meeting in progress is selected.
\<close>

theorem find_meeting_to_join_two_next_selects_in_progress:
  "[m_standup, m_review, m_sync] \<noteq> []
   \<and> 2 \<le> length (filter is_next_joinable [m_standup, m_review, m_sync])
   \<and> find_meeting_to_join [m_standup, m_review, m_sync] args0 \<noteq> (MultipleOptions, None)
   \<and> find_meeting_to_join [m_standup, m_review, m_sync] args0 = (FoundNextMeeting, Some m_standup)"
  unfolding find_meeting_to_join_def Let_def filter_next_examples filter_in_progress_examples
  by simp

text \<open>
  C7. On the empty list \<open>find_meeting_to_join\<close> returns \<open>NoOptions\<close> and no meeting,
  whatever the arguments (the reference time among them).
\<close>

theorem find_meeting_to_join_empty:
  "find_meeting_to_join [] args = (NoOptions, None)"
  by (simp add: find_meeting_to_join_def)

text \<open>
  C9. A meeting that \<open>find_meeting_to_join\<close> returns with \<open>FoundNextMeeting\<close> is an
  element of the list and is next-joinable or in progress.
\<close>

theorem find_meeting_to_join_selects_flagged:
  assumes "find_meeting_to_join events args = (FoundNextMeeting, Some m)"
  shows "m \<in> set events \<and> (is_next_joinable m \<or> in_progress m)"
proof (cases "length (filter is_next_joinable events) = 1")
  case True
  with assms have "m = filter is_next_joinable events ! 0"
    by (simp add: find_meeting_to_join_def Let_def split: if_splits)
  with filter_single_nth [OF True] show ?thesis by simp
next
  case False
  with assms have l: "length (filter in_progress events) = 1"
    and m: "m = filter in_progress events ! 0"
    by (simp_all add: find_meeting_to_join_def Let_def split: if_splits)
  from filter_single_nth [OF l] m show ?thesis by simp
qed

theorem find_meeting_to_join_selects_flagged_witness:
  "find_meeting_to_join [m_review, m_standup] args0 = (FoundNextMeeting, Some m_review)
   \<and> m_review \<in> set [m_review, m_standup]
   \<and> (is_next_joinable m_review \<or> in_progress m_review)"
proof -
  have h: "find_meeting_to_join [m_review, m_standup] args0 = (FoundNextMeeting, Some m_review)"
    by (simp add: find_meeting_to_join_def m_standup_def m_review_def)
  from find_meeting_to_join_selects_flagged [OF h] h
  show ?thesis by blast
qed

section \<open>Properties of link extraction\<close>

text \<open>The recursive substring test is the contiguous-sublist relation of the library.\<close>

lemma str_in_sublist: "str_in sub s \<longleftrightarrow> sublist sub s"
  by (induction s) (auto simp: sublist_Cons_right)

text \<open>
  An occurrence of \<open>sub\<close> in \<open>a @ sep # b\<close> cannot lie across the separator when \<open>sub\<close>
  does not contain it.
\<close>

lemma sublist_no_straddle:
  assumes "sep \<notin> set sub" and "sublist sub (a @ sep # b)"
  shows "sublist sub a \<or> sublist sub b"
  using assms
  by (auto simp: sublist_append sublist_Cons_right prefix_Cons suffix_def)

lemma split_acc_sublist:
  assumes "sep \<notin> set sub" and "sublist sub (acc @ s)"
  shows "\<exists>seg \<in> set (split_acc sep acc s). sublist sub seg"
  using assms(2)
proof (induction s arbitrary: acc)
  case Nil
  then show ?case by simp
next
  case (Cons c s)
  show ?case
  proof (cases "c = sep")
    case True
    with Cons.prems have "sublist sub (acc @ sep # s)" by simp
    with assms(1) have "sublist sub acc \<or> sublist sub s"
      by (rule sublist_no_straddle)
    then show ?thesis
    proof
      assume "sublist sub acc"
      with True show ?thesis by simp
    next
      assume "sublist sub s"
      then have "sublist sub ([] @ s)" by simp
      from Cons.IH [OF this] True show ?thesis by auto
    qed
  next
    case False
    from Cons.prems have "sublist sub ((acc @ [c]) @ s)" by simp
    from Cons.IH [OF this] False show ?thesis by simp
  qed
qed

lemma split_has_marker:
  assumes "str_in ''zoom.us'' loc"
  shows "\<exists>seg \<in> set (split CHR '','' loc). str_in ''zoom.us'' seg"
proof -
  have "CHR '','' \<notin> set ''zoom.us''" by simp
  moreover from assms have "sublist ''zoom.us'' ([] @ loc)"
    by (simp add: str_in_sublist)
  ultimately show ?thesis
    unfolding split_def str_in_sublist by (rule split_acc_sublist)
qed

lemma next_where_Inr:
  assumes "\<exists>x \<in> set xs. p x"
  shows "\<exists>x. next_where p xs = Inr x \<and> find p xs = Some x \<and> x \<in> set xs \<and> p x"
proof -
  from assms obtain x where f: "find p xs = Some x"
    by (cases "find p xs") (auto simp: find_None_iff)
  then have "x \<in> set xs \<and> p x"
    by (auto simp: find_Some_iff)
  with f show ?thesis
    by (simp add: next_where_def)
qed

text \<open>
  Every event with no marker in its location and a non-empty entry-point list with no
  matching entry makes \<open>get_zoom_link\<close> raise: \<^verbatim>\<open>next\<close> has no default, and the
  \<^verbatim>\<open>else\<close> branch that would report "no zoom links" is never reached.
\<close>

lemma get_zoom_link_no_match_raises:
  assumes "\<not> str_in ''zoom.us'' (case e_location event of None \<Rightarrow> [] | Some l \<Rightarrow> l)"
    and "e_conferenceData event = Some cd" and "entryPoints cd = Some eps" and "eps \<noteq> []"
    and "find (\<lambda>ep. str_in ''zoom.us'' (dict_get ep ''uri'' [])) eps = None"
  shows "get_zoom_link event args = Inl StopIteration"
  using assms by (simp add: get_zoom_link_def next_where_def)

text \<open>
  Inside \<open>parse_events\<close> the exception ends the list: the event and all events after it
  are dropped without an error.
\<close>

lemma parse_events_truncated:
  "parse_events lib0 [ev_standup, ev_meet, ev_review] args0 = Inr [m_standup]"
  by (simp add: parse_events_def augment_ev_standup) (simp add: ev_meet_def lib0_defs model_defs)

text \<open>
  C2. \<open>ev_meet\<close> has no location, and its entry-point list is present and not empty and
  has no entry whose URI contains \<^verbatim>\<open>zoom.us\<close>. \<open>get_zoom_link\<close> does not return an absent
  link for it: it raises \<^verbatim>\<open>StopIteration\<close>.
\<close>

theorem get_zoom_link_ev_meet_raises:
  "get_zoom_link ev_meet args0 = Inl StopIteration"
  by (simp add: ev_meet_def model_defs)

text \<open>
  A link listed after another segment comes back with the blank that follows the comma:
  \<^verbatim>\<open>split(",")\<close> leaves it in the segment and nothing strips it. The same link listed
  first comes back bare.
\<close>

lemma get_zoom_link_link_second:
  assumes "e_location event = Some ''123 Main St, https://zoom.us/j/111''"
  shows "get_zoom_link event args = Inr (Some '' https://zoom.us/j/111'')"
  using assms by (simp add: get_zoom_link_def next_where_def split_def)

lemma get_zoom_link_link_first:
  assumes "e_location event = Some ''https://zoom.us/j/111, 123 Main St''"
  shows "get_zoom_link event args = Inr (Some ''https://zoom.us/j/111'')"
  using assms by (simp add: get_zoom_link_def next_where_def split_def)

text \<open>
  C3. The location of \<open>ev_review\<close> is \<^verbatim>\<open>123 Main St, https://zoom.us/j/111\<close>. The link
  in it is \<^verbatim>\<open>https://zoom.us/j/111\<close>, and \<open>get_zoom_link\<close> does not return that
  string: it returns the link with a blank in front of it.
\<close>

theorem get_zoom_link_ev_review_blank:
  "e_location ev_review = Some ''123 Main St, https://zoom.us/j/111''
   \<and> get_zoom_link ev_review args0 = Inr (Some '' https://zoom.us/j/111'')
   \<and> get_zoom_link ev_review args0 \<noteq> Inr (Some ''https://zoom.us/j/111'')"
  by (simp add: ev_review_def model_defs)

text \<open>
  C10. For every event whose location \<open>loc\<close> contains \<^verbatim>\<open>zoom.us\<close>, \<open>get_zoom_link\<close> returns
  a link \<open>l\<close> and does not raise. The link contains the marker; it is the first
  comma-separated segment of \<open>loc\<close> that contains the marker when \<open>loc\<close> has a comma (the
  search for it succeeds), and \<open>loc\<close> itself otherwise. Every event with the same location
  gets the same link, whatever its other fields and its entry points are.
\<close>

theorem get_zoom_link_location_only:
  assumes "e_location event = Some loc" and "str_in ''zoom.us'' loc"
  shows "\<exists>l. get_zoom_link event args = Inr (Some l)
           \<and> str_in ''zoom.us'' l
           \<and> (str_in '','' loc \<longrightarrow> find (str_in ''zoom.us'') (split CHR '','' loc) = Some l)
           \<and> (\<not> str_in '','' loc \<longrightarrow> l = loc)
           \<and> (\<forall>event' args'. e_location event' = Some loc
                 \<longrightarrow> get_zoom_link event' args' = Inr (Some l))"
proof (cases "str_in '','' loc")
  case True
  from next_where_Inr [OF split_has_marker [OF assms(2)]]
  obtain l where "next_where (str_in ''zoom.us'') (split CHR '','' loc) = Inr l"
    and "find (str_in ''zoom.us'') (split CHR '','' loc) = Some l"
    and "str_in ''zoom.us'' l"
    by blast
  with True assms show ?thesis
    by (simp add: get_zoom_link_def)
next
  case False
  with assms show ?thesis
    by (simp add: get_zoom_link_def)
qed

text \<open>
  At \<open>ev_both\<close>, whose entry points alone would make the function raise, the link is the
  segment of the location.
\<close>

theorem get_zoom_link_location_only_witness:
  "e_location ev_both = Some ''Room 4, https://zoom.us/j/444''
   \<and> str_in ''zoom.us'' ''Room 4, https://zoom.us/j/444''
   \<and> str_in '','' ''Room 4, https://zoom.us/j/444''
   \<and> get_zoom_link ev_both args0 = Inr (Some '' https://zoom.us/j/444'')"
proof -
  have h1: "e_location ev_both = Some ''Room 4, https://zoom.us/j/444''"
    by (simp add: ev_both_def)
  have h2: "str_in ''zoom.us'' ''Room 4, https://zoom.us/j/444''"
    by simp
  have h3: "str_in '','' ''Room 4, https://zoom.us/j/444''"
    by simp
  have f: "find (str_in ''zoom.us'') (split CHR '','' ''Room 4, https://zoom.us/j/444'')
             = Some '' https://zoom.us/j/444''"
    by (simp add: split_def)
  from get_zoom_link_location_only [OF h1 h2, of args0] h3 f
  have "get_zoom_link ev_both args0 = Inr (Some '' https://zoom.us/j/444'')"
    by auto
  with h1 h2 h3 show ?thesis by blast
qed

section \<open>Properties of event normalization\<close>

lemma eval_in_progress_True:
  "eval_in_progress d s e n = Inr True \<Longrightarrow> d"
  by (simp add: eval_in_progress_def split: if_splits)

lemma eval_is_next_joinable_True:
  "eval_is_next_joinable d p s n = Inr True \<Longrightarrow> d \<and> \<not> p"
  by (simp add: eval_is_next_joinable_def split: if_splits)

lemma augment_Inr_flags:
  assumes "augment lib args event = Inr m"
  shows "\<exists>s e. eval_in_progress (is_not_day_event m) s e (now args) = Inr (in_progress m)
             \<and> eval_is_next_joinable (is_not_day_event m) (in_progress m) s (now args)
                 = Inr (is_next_joinable m)"
  using assms
  by (fastforce simp: augment_def Let_def split: option.splits sum.splits)

text \<open>
  A timed event whose start cannot be parsed, or which has started and whose end cannot be
  parsed, makes \<open>augment\<close> raise: the \<^verbatim>\<open>None\<close> that \<open>parse_event_datetime\<close> returns is
  compared with \<^verbatim>\<open>args.now\<close>.
\<close>

lemma augment_unparsed_start_raises:
  assumes "e_id event = Some i" and "e_start event = Some sd" and "e_end event = Some ed"
    and "is_not_day_only lib event"
    and "parse_event_datetime lib sd = None"
  shows "augment lib args event = Inl TypeError"
  using assms by (simp add: augment_def eval_in_progress_def)

lemma augment_unparsed_end_raises:
  assumes "e_id event = Some i" and "e_start event = Some sd" and "e_end event = Some ed"
    and "is_not_day_only lib event"
    and "dt_le (parse_event_datetime lib sd) (now args) = Inr True"
    and "parse_event_datetime lib ed = None"
  shows "augment lib args event = Inl TypeError"
  using assms by (simp add: augment_def eval_in_progress_def)

text \<open>
  C1. \<open>ev_bad_end\<close> started at 00:00 and its end marker is \<^verbatim>\<open>not-a-date\<close>.
  \<open>parse_event_datetime\<close> returns \<^verbatim>\<open>None\<close> for the end, and \<open>augment\<close> does not return a
  record with both flags false: \<^verbatim>\<open>end >= args.now\<close> raises \<^verbatim>\<open>TypeError\<close>, and so does
  \<open>parse_events\<close>.
\<close>

theorem augment_ev_bad_end_raises:
  "e_end ev_bad_end = Some [(''dateTime'', ''not-a-date'')]
   \<and> parse_event_datetime lib0 [(''dateTime'', ''not-a-date'')] = None
   \<and> augment lib0 args0 ev_bad_end = Inl TypeError
   \<and> parse_events lib0 [ev_bad_end] args0 = Inl TypeError"
  by (simp add: parse_events_def ev_bad_end_def lib0_defs model_defs)

text \<open>
  C8. A record that \<open>augment\<close> returns never has both \<open>in_progress\<close> and
  \<open>is_next_joinable\<close>, and has neither when \<open>is_not_day_event\<close> is false.
\<close>

theorem augment_flags_exclusive:
  assumes "augment lib args event = Inr m"
  shows "\<not> (in_progress m \<and> is_next_joinable m)
       \<and> (\<not> is_not_day_event m \<longrightarrow> \<not> in_progress m \<and> \<not> is_next_joinable m)"
proof -
  from augment_Inr_flags [OF assms] obtain s e where
    p: "eval_in_progress (is_not_day_event m) s e (now args) = Inr (in_progress m)" and
    j: "eval_is_next_joinable (is_not_day_event m) (in_progress m) s (now args)
          = Inr (is_next_joinable m)"
    by blast
  have "is_not_day_event m" if "in_progress m"
  proof -
    from p that have "eval_in_progress (is_not_day_event m) s e (now args) = Inr True"
      by simp
    then show ?thesis by (rule eval_in_progress_True)
  qed
  moreover have "is_not_day_event m \<and> \<not> in_progress m" if "is_next_joinable m"
  proof -
    from j that have
      "eval_is_next_joinable (is_not_day_event m) (in_progress m) s (now args) = Inr True"
      by simp
    then show ?thesis by (rule eval_is_next_joinable_True)
  qed
  ultimately show ?thesis by blast
qed

text \<open>At the whole-day event \<open>ev_holiday\<close>, which is not timed.\<close>

theorem augment_flags_exclusive_witness:
  "augment lib0 args0 ev_holiday = Inr m_holiday
   \<and> \<not> is_not_day_event m_holiday
   \<and> \<not> in_progress m_holiday \<and> \<not> is_next_joinable m_holiday"
proof -
  have h: "augment lib0 args0 ev_holiday = Inr m_holiday"
    by (rule augment_ev_holiday)
  have d: "\<not> is_not_day_event m_holiday"
    by (simp add: m_holiday_def)
  from augment_flags_exclusive [OF h] h d
  show ?thesis by blast
qed

end
